theory Spec2Isabelle
  imports Main "HOL-Library.Code_Target_Nat"
begin

section \<open>Bill classification dictionary: the embedding\<close>

text \<open>
  The program \<^verbatim>\<open>build_classification_dict.py\<close> turns the rows of a bill tracker export
  into classification records. Its per-row functions are embedded here as HOL functions.

  A Python \<^verbatim>\<open>str\<close> is a sequence of Unicode code points: a list of natural numbers
  here (\<open>pystr\<close>), with \<open>py\<close> turning an ASCII literal into its code points. The
  classes \<^verbatim>\<open>\d\<close> and \<^verbatim>\<open>\s\<close> of a \<^verbatim>\<open>str\<close> pattern are the Unicode ones (decimal
  digits of Unicode 14.0, as in CPython 3.11). The case mappings \<^verbatim>\<open>upper\<close> and
  \<^verbatim>\<open>lower\<close> are modelled on ASCII and leave every code point beyond ASCII as it is,
  which is what Python does for characters without case (digits, white space), not for cased
  letters beyond ASCII; the theorems about arbitrary strings say which strings they cover
  (\<open>ascii_str\<close>, \<open>plain_str\<close>).

  A value for which \<^verbatim>\<open>pd.isna\<close> holds is \<open>None\<close>, a string \<open>s\<close> is \<open>Some s\<close>. An
  exception is a value of type \<open>error\<close>, returned as \<open>Inl\<close>. Python integers are unbounded;
  \<^verbatim>\<open>int\<close> of a digit string raises \<^verbatim>\<open>ValueError\<close> when the string has more digits than
  the interpreter's limit, 4300 unless configured otherwise.
\<close>

subsection \<open>Strings and characters\<close>

type_synonym pystr = "nat list"

definition py :: "string \<Rightarrow> pystr" where
  \<comment> \<open>the code points of an ASCII literal\<close>
  "py s = map of_char s"

datatype error = TypeError | ValueError | AttributeError



definition decimal_zeros :: "nat list" where
  \<comment> \<open>the digit zero of each script: the decimal digits (category Nd) are the ten code
     points from each of these on, with the values 0 to 9\<close>
  "decimal_zeros =
     [0x30, 0x660, 0x6F0, 0x7C0, 0x966, 0x9E6, 0xA66, 0xAE6, 0xB66, 0xBE6, 0xC66, 0xCE6,
      0xD66, 0xDE6, 0xE50, 0xED0, 0xF20, 0x1040, 0x1090, 0x17E0, 0x1810, 0x1946, 0x19D0,
      0x1A80, 0x1A90, 0x1B50, 0x1BB0, 0x1C40, 0x1C50, 0xA620, 0xA8D0, 0xA900, 0xA9D0,
      0xA9F0, 0xAA50, 0xABF0, 0xFF10, 0x104A0, 0x10D30, 0x11066, 0x110F0, 0x11136,
      0x111D0, 0x112F0, 0x11450, 0x114D0, 0x11650, 0x116C0, 0x11730, 0x118E0, 0x11950,
      0x11C50, 0x11D50, 0x11DA0, 0x16A60, 0x16AC0, 0x16B50, 0x1D7CE, 0x1D7D8, 0x1D7E2,
      0x1D7EC, 0x1D7F6, 0x1E140, 0x1E2F0, 0x1E950, 0x1FBF0]"

definition digit_zero :: "nat \<Rightarrow> nat option" where
  \<comment> \<open>the zero of the script a decimal digit belongs to\<close>
  "digit_zero c = find (\<lambda>z. z \<le> c \<and> c \<le> z + 9) decimal_zeros"

definition is_digit :: "nat \<Rightarrow> bool" where
  \<comment> \<open>the class \<^verbatim>\<open>\d\<close>: a decimal digit of any script\<close>
  "is_digit c = (digit_zero c \<noteq> None)"

definition is_upper :: "nat \<Rightarrow> bool" where
  \<comment> \<open>the class \<^verbatim>\<open>[A-Z]\<close>\<close>
  "is_upper c = (65 \<le> c \<and> c \<le> 90)"

definition is_lower :: "nat \<Rightarrow> bool" where
  \<comment> \<open>a..z\<close>
  "is_lower c = (97 \<le> c \<and> c \<le> 122)"

definition is_space :: "nat \<Rightarrow> bool" where
  \<comment> \<open>the class \<^verbatim>\<open>\s\<close>, also what \<^verbatim>\<open>str.strip\<close> removes: tab, line feed, vertical tab,
     form feed, carriage return, the separators 28..31, the space, and the white space
     beyond ASCII\<close>
  "is_space c =
     ((9 \<le> c \<and> c \<le> 13) \<or> (28 \<le> c \<and> c \<le> 32) \<or> c = 0x85 \<or> c = 0xA0 \<or> c = 0x1680
      \<or> (0x2000 \<le> c \<and> c \<le> 0x200A) \<or> c = 0x2028 \<or> c = 0x2029 \<or> c = 0x202F
      \<or> c = 0x205F \<or> c = 0x3000)"


definition upper_char :: "nat \<Rightarrow> nat" where
  "upper_char c = (if is_lower c then c - 32 else c)"

definition lower_char :: "nat \<Rightarrow> nat" where
  "lower_char c = (if is_upper c then c + 32 else c)"

definition upper :: "pystr \<Rightarrow> pystr" where
  \<comment> \<open>\<^verbatim>\<open>str.upper\<close>\<close>
  "upper s = map upper_char s"

definition lower :: "pystr \<Rightarrow> pystr" where
  \<comment> \<open>\<^verbatim>\<open>str.lower\<close>\<close>
  "lower s = map lower_char s"

definition strip :: "pystr \<Rightarrow> pystr" where
  \<comment> \<open>\<^verbatim>\<open>str.strip()\<close>: white space removed at both ends\<close>
  "strip s = rev (dropWhile is_space (rev (dropWhile is_space s)))"

subsection \<open>Integers and their decimal strings\<close>

definition digit_val :: "nat \<Rightarrow> nat" where
  \<comment> \<open>the value of a decimal digit\<close>
  "digit_val c = (case digit_zero c of Some z \<Rightarrow> c - z | None \<Rightarrow> 0)"

definition int_of_digits :: "pystr \<Rightarrow> nat" where
  \<comment> \<open>the number a string of decimal digits denotes\<close>
  "int_of_digits ds = foldl (\<lambda>acc c. 10 * acc + digit_val c) 0 ds"

definition max_str_digits :: nat where
  \<comment> \<open>the interpreter's default limit on the digits of a converted string\<close>
  "max_str_digits = 4300"

definition py_int :: "pystr \<Rightarrow> error + nat" where
  \<comment> \<open>\<^verbatim>\<open>int(ds)\<close> for a string of decimal digits: leading zeros count towards the limit\<close>
  "py_int ds = (if max_str_digits < length ds then Inl ValueError else Inr (int_of_digits ds))"

fun str_of_nat :: "nat \<Rightarrow> pystr" where
  \<comment> \<open>the decimal string of a number, as an f-string writes it\<close>
  "str_of_nat n =
     (if n < 10 then [48 + n]
      else str_of_nat (n div 10) @ [48 + n mod 10])"

declare str_of_nat.simps [simp del]

subsection \<open>The regular expressions of the normalizer\<close>

definition maine_match :: "pystr \<Rightarrow> pystr option" where
  \<comment> \<open>\<^verbatim>\<open>re.match(r'L\.D\.?\s*(\d+)', s)\<close>: group 1 when the pattern matches at the start.
     The three classes (period, white space, digit) are disjoint, so the greedy choices
     are never undone: one optional period, all white space, then the longest digit run.\<close>
  "maine_match s =
     (if take 3 s = py ''L.D'' then
        (let r = drop 3 s;
             r1 = (if take 1 r = py ''.'' then drop 1 r else r);
             r2 = dropWhile is_space r1;
             ds = takeWhile is_digit r2
         in if ds = [] then None else Some ds)
      else None)"

fun find_close :: "pystr \<Rightarrow> pystr option" where
  \<comment> \<open>\<^verbatim>\<open>.*?\)\<close> after an opening parenthesis: the text behind the first closing
     parenthesis, provided no line feed comes before it (\<^verbatim>\<open>.\<close> does not match a line feed)\<close>
  "find_close [] = None"
| "find_close (c # cs) =
     (if c = of_char CHR '')'' then Some cs
      else if c = of_char CHR 0x0A then None
      else find_close cs)"

lemma find_close_length: "find_close cs = Some r \<Longrightarrow> length r < length cs"
  by (induction cs) (auto split: if_splits)

function remove_parens :: "pystr \<Rightarrow> pystr" where
  \<comment> \<open>\<^verbatim>\<open>re.sub(r'\(.*?\)', '', s)\<close>: scanning from the left, each match is dropped and the
     scan goes on behind it; an opening parenthesis with no match stays\<close>
  "remove_parens [] = []"
| "remove_parens (c # cs) =
     (if c = of_char CHR ''('' then
        (case find_close cs of
           Some r \<Rightarrow> remove_parens r
         | None \<Rightarrow> c # remove_parens cs)
      else c # remove_parens cs)"
  by pat_completeness auto
termination
  by (relation "measure length") (auto dest: find_close_length)

definition remove_periods :: "pystr \<Rightarrow> pystr" where
  \<comment> \<open>\<^verbatim>\<open>re.sub(r'\.', '', s)\<close>\<close>
  "remove_periods s = filter (\<lambda>c. c \<noteq> of_char CHR ''.'') s"

definition remove_spaces :: "pystr \<Rightarrow> pystr" where
  \<comment> \<open>\<^verbatim>\<open>re.sub(r'\s+', '', s)\<close>\<close>
  "remove_spaces s = filter (\<lambda>c. \<not> is_space c) s"

definition general_match :: "pystr \<Rightarrow> (pystr \<times> pystr) option" where
  \<comment> \<open>\<^verbatim>\<open>re.match(r'([A-Z]+)0*(\d+)', s).groups()\<close>. The letters are taken greedily, then
     the zeros (the ASCII zero only). When a digit follows the zeros, group 2 is the digit
     run from there. When none does, the matcher gives back the last zero, which alone
     becomes group 2.\<close>
  "general_match s =
     (let prefix = takeWhile is_upper s;
          rest = dropWhile is_upper s;
          zeros = takeWhile (\<lambda>c. c = of_char CHR ''0'') rest;
          number = takeWhile is_digit (dropWhile (\<lambda>c. c = of_char CHR ''0'') rest)
      in if prefix = [] then None
         else if number \<noteq> [] then Some (prefix, number)
         else if zeros \<noteq> [] then Some (prefix, py ''0'')
         else None)"

subsection \<open>The bill-number normalizer\<close>

definition cleaned :: "pystr \<Rightarrow> pystr" where
  \<comment> \<open>the three substitutions on the uppercased name\<close>
  "cleaned s = remove_spaces (remove_periods (remove_parens (upper s)))"

definition normalize_bill_number :: "pystr option \<Rightarrow> error + pystr option" where
  "normalize_bill_number bill_name =
     (case bill_name of
        None \<Rightarrow> Inr None
      | Some s \<Rightarrow>
          (case maine_match s of
             Some ds \<Rightarrow>
               (case py_int ds of
                  Inl e \<Rightarrow> Inl e
                | Inr n \<Rightarrow> Inr (Some (py ''LD'' @ str_of_nat n)))
           | None \<Rightarrow>
               (let normalized = cleaned s;
                    normalized' = (case general_match normalized of
                                     Some (prefix, number) \<Rightarrow> prefix @ number
                                   | None \<Rightarrow> normalized)
                in Inr (Some (strip normalized')))))"

subsection \<open>The year extractor\<close>

fun search_four_digits :: "pystr \<Rightarrow> pystr option" where
  \<comment> \<open>\<^verbatim>\<open>re.search(r'(\d{4})', s)\<close>: the four characters at the leftmost position where
     four digits stand in a row\<close>
  "search_four_digits [] = None"
| "search_four_digits (c # cs) =
     (if 4 \<le> length (c # cs) \<and> list_all is_digit (take 4 (c # cs)) then Some (take 4 (c # cs))
      else search_four_digits cs)"

definition extract_year :: "pystr option \<Rightarrow> int" where
  \<comment> \<open>four digits are far below the limit of \<^verbatim>\<open>int\<close>, which cannot raise here\<close>
  "extract_year status_date =
     (case status_date of
        None \<Rightarrow> 2025
      | Some s \<Rightarrow>
          (case search_four_digits s of
             Some ds \<Rightarrow> int (int_of_digits ds)
           | None \<Rightarrow> 2025))"

subsection \<open>The issue categorizer\<close>

fun starts_with :: "pystr \<Rightarrow> pystr \<Rightarrow> bool" where
  "starts_with s [] = True"
| "starts_with [] (k # ks) = False"
| "starts_with (c # cs) (k # ks) = (c = k \<and> starts_with cs ks)"

fun contains :: "pystr \<Rightarrow> pystr \<Rightarrow> bool" where
  \<comment> \<open>\<^verbatim>\<open>k in s\<close> on strings: \<open>k\<close> occurs in \<open>s\<close> as a contiguous piece\<close>
  "contains [] k = (k = [])"
| "contains (c # cs) k = (starts_with (c # cs) k \<or> contains cs k)"

definition any_in :: "pystr list \<Rightarrow> pystr \<Rightarrow> bool" where
  \<comment> \<open>\<^verbatim>\<open>any(x in s for x in ks)\<close>\<close>
  "any_in ks s = list_ex (contains s) ks"

definition add_if :: "bool \<Rightarrow> pystr \<Rightarrow> pystr set \<Rightarrow> pystr set" where
  \<comment> \<open>\<^verbatim>\<open>if b: categories.add(label)\<close>\<close>
  "add_if b label categories = (if b then insert label categories else categories)"

definition categorize_issues :: "pystr option \<Rightarrow> pystr set" where
  \<comment> \<open>the returned list is built from a set, in no particular order: the result is the set\<close>
  "categorize_issues issues_str =
     (case issues_str of
        None \<Rightarrow> {py ''other''}
      | Some s \<Rightarrow>
          (let issues_lower = lower s;
               categories = {};
               categories = add_if (any_in [py ''healthcare'', py ''medical''] issues_lower)
                              (py ''healthcare'') categories;
               categories = add_if (any_in [py ''school'', py ''student'', py ''educator'']
                                      issues_lower)
                              (py ''education'') categories;
               categories = add_if (contains issues_lower (py ''sports''))
                              (py ''sports'') categories;
               categories = add_if (contains issues_lower (py ''facilities'')
                                    \<or> contains issues_lower (py ''bathroom''))
                              (py ''facilities'') categories;
               categories = add_if (contains issues_lower (py ''religious''))
                              (py ''religious_exemption'') categories;
               categories = add_if (any_in [py ''curriculum'', py ''outing'',
                                            py (''don'' @ [CHR 0x27] @ ''t say'')] issues_lower)
                              (py ''schools_speech'') categories;
               categories = add_if (any_in [py ''id'', py ''definition of sex'',
                                            py ''re-definition''] issues_lower)
                              (py ''identity_documents'') categories;
               categories = add_if (any_in [py ''drag'', py ''expression''] issues_lower)
                              (py ''expression'') categories;
               categories = add_if (contains issues_lower (py ''accommodation''))
                              (py ''public_accommodations'') categories
           in if categories = {} then {py ''other''} else categories))"



subsection \<open>State abbreviations\<close>

definition STATE_ABBREV_items :: "(pystr \<times> pystr) list" where
  "STATE_ABBREV_items = map (\<lambda>(name, code). (py name, py code))
     [(''Alabama'', ''AL''), (''Alaska'', ''AK''), (''Arizona'', ''AZ''), (''Arkansas'', ''AR''),
      (''California'', ''CA''), (''Colorado'', ''CO''), (''Connecticut'', ''CT''),
      (''Delaware'', ''DE''), (''Florida'', ''FL''), (''Georgia'', ''GA''), (''Hawaii'', ''HI''),
      (''Idaho'', ''ID''), (''Illinois'', ''IL''), (''Indiana'', ''IN''), (''Iowa'', ''IA''),
      (''Kansas'', ''KS''), (''Kentucky'', ''KY''), (''Louisiana'', ''LA''), (''Maine'', ''ME''),
      (''Maryland'', ''MD''), (''Massachusetts'', ''MA''), (''Michigan'', ''MI''),
      (''Minnesota'', ''MN''), (''Mississippi'', ''MS''), (''Missouri'', ''MO''),
      (''Montana'', ''MT''), (''Nebraska'', ''NE''), (''Nevada'', ''NV''),
      (''New Hampshire'', ''NH''), (''New Jersey'', ''NJ''), (''New Mexico'', ''NM''),
      (''New York'', ''NY''), (''North Carolina'', ''NC''), (''North Dakota'', ''ND''),
      (''Ohio'', ''OH''), (''Oklahoma'', ''OK''), (''Oregon'', ''OR''), (''Pennsylvania'', ''PA''),
      (''Rhode Island'', ''RI''), (''South Carolina'', ''SC''), (''South Dakota'', ''SD''),
      (''Tennessee'', ''TN''), (''Texas'', ''TX''), (''Utah'', ''UT''), (''Vermont'', ''VT''),
      (''Virginia'', ''VA''), (''Washington'', ''WA''), (''West Virginia'', ''WV''),
      (''Wisconsin'', ''WI''), (''Wyoming'', ''WY''), (''District of Columbia'', ''DC'')]"

definition STATE_ABBREV :: "pystr \<rightharpoonup> pystr" where
  "STATE_ABBREV = map_of STATE_ABBREV_items"


definition state_abbrev_of :: "pystr option \<Rightarrow> error + pystr" where
  \<comment> \<open>\<^verbatim>\<open>STATE_ABBREV.get(row['State'], row['State'][:2].upper())\<close>. The default is an
     argument, computed before the lookup; slicing a missing value raises.\<close>
  "state_abbrev_of st =
     (case st of
        None \<Rightarrow> Inl TypeError
      | Some s \<Rightarrow>
          (let default = upper (take 2 s)
           in Inr (case STATE_ABBREV s of Some a \<Rightarrow> a | None \<Rightarrow> default)))"

subsection \<open>Rows, records and the pipeline\<close>

record input_row =
  State :: "pystr option"
  Bill_Name :: "pystr option"
  Status :: "pystr option"
  Status_Detail :: "pystr option"
  Status_Date :: "pystr option"
  Issues :: "pystr option"

record output_record =
  state :: pystr
  bill_number :: "pystr option"
  year :: int
  state_full :: "pystr option"
  bill_number_raw :: "pystr option"
  status :: "pystr option"
  status_detail :: "pystr option"
  issues_raw :: "pystr option"
  issue_categories :: "pystr set"
  label :: pystr
  source :: pystr
  legiscan_bill_id :: "pystr option"
  legiscan_text_url :: "pystr option"

definition no_string_state :: "input_row list \<Rightarrow> bool" where
  \<comment> \<open>the table has rows and no State cell holds a string: the column is then not a column
     of strings, and its \<^verbatim>\<open>.str\<close> accessor raises\<close>
  "no_string_state df = (df \<noteq> [] \<and> list_all (\<lambda>row. State row = None) df)"

definition keep_row :: "input_row \<Rightarrow> bool" where
  \<comment> \<open>\<^verbatim>\<open>df['State'].notna() & ~df['State'].str.contains('Data is current', na=False)\<close>\<close>
  "keep_row row =
     (case State row of
        None \<Rightarrow> False
      | Some s \<Rightarrow> \<not> contains s (py ''Data is current''))"

definition build_record :: "input_row \<Rightarrow> error + output_record" where
  \<comment> \<open>the body of the loop\<close>
  "build_record row =
     (let bill_raw = Bill_Name row
      in case normalize_bill_number bill_raw of
           Inl e \<Rightarrow> Inl e
         | Inr bill_normalized \<Rightarrow>
             (case state_abbrev_of (State row) of
                Inl e \<Rightarrow> Inl e
              | Inr state_abbrev \<Rightarrow>
                  (let year = extract_year (Status_Date row)
                   in Inr \<lparr> state = state_abbrev,
                            bill_number = bill_normalized,
                            year = year,
                            state_full = State row,
                            bill_number_raw = bill_raw,
                            status = Status row,
                            status_detail = Status_Detail row,
                            issues_raw = Issues row,
                            issue_categories = categorize_issues (Issues row),
                            label = py ''harmful'',
                            source = py ''aclu_tracker'',
                            legiscan_bill_id = None,
                            legiscan_text_url = None \<rparr>)))"

fun build_records :: "input_row list \<Rightarrow> output_record list \<Rightarrow> error + output_record list" where
  \<comment> \<open>the loop over the rows; \<open>records\<close> is the list built so far\<close>
  "build_records [] records = Inr records"
| "build_records (row # rows) records =
     (case build_record row of
        Inl e \<Rightarrow> Inl e
      | Inr record \<Rightarrow> build_records rows (records @ [record]))"

definition build_classification_dict :: "input_row list \<Rightarrow> error + output_record list" where
  \<comment> \<open>from the loaded table to the list of records; reading and writing files is left out.
     The footer filter comes first and raises on a State column without strings.\<close>
  "build_classification_dict df =
     (if no_string_state df then Inl AttributeError
      else build_records (filter keep_row df) [])"

subsection \<open>Vocabulary of the properties\<close>

definition four_digits_at :: "pystr \<Rightarrow> nat \<Rightarrow> bool" where
  \<comment> \<open>four digits in a row stand at position \<open>i\<close> of \<open>s\<close>\<close>
  "four_digits_at s i = (i + 4 \<le> length s \<and> list_all is_digit (take 4 (drop i s)))"

function digit_runs :: "pystr \<Rightarrow> pystr list" where
  \<comment> \<open>the maximal runs of digits of a string, from left to right\<close>
  "digit_runs [] = []"
| "digit_runs (c # cs) =
     (if is_digit c then takeWhile is_digit (c # cs) # digit_runs (dropWhile is_digit cs)
      else digit_runs cs)"
  by pat_completeness auto
termination
  by (relation "measure length") (auto simp: length_dropWhile_le less_Suc_eq_le)

definition record_of :: "input_row \<Rightarrow> output_record" where
  \<comment> \<open>the record the loop body builds from a row, where it builds one\<close>
  "record_of row = (case build_record row of Inr r \<Rightarrow> r)"

definition long_maine_number :: "pystr \<Rightarrow> bool" where
  \<comment> \<open>a name in the Maine format whose digit run is longer than the limit of \<^verbatim>\<open>int\<close>\<close>
  "long_maine_number s =
     (case maine_match s of Some ds \<Rightarrow> max_str_digits < length ds | None \<Rightarrow> False)"

definition long_maine_row :: "input_row \<Rightarrow> bool" where
  "long_maine_row row =
     (case Bill_Name row of Some s \<Rightarrow> long_maine_number s | None \<Rightarrow> False)"

definition normalize_twice :: "pystr option \<Rightarrow> error + pystr option" where
  \<comment> \<open>the normalizer applied to its own result\<close>
  "normalize_twice x =
     (case normalize_bill_number x of Inl e \<Rightarrow> Inl e | Inr y \<Rightarrow> normalize_bill_number y)"


definition example_rows :: "input_row list" where
  \<comment> \<open>a small table: two bills, a row without a state and the footer row\<close>
  "example_rows =
     [\<lparr> State = Some (py ''Maine''), Bill_Name = Some (py ''L.D. 1134 (S.P. 461)''),
        Status = Some (py ''Advancing''), Status_Detail = None,
        Status_Date = Some (py ''01/19/2025''), Issues = Some (py ''School sports'') \<rparr>,
      \<lparr> State = None, Bill_Name = Some (py ''H.B. 1''), Status = None,
        Status_Detail = None, Status_Date = None, Issues = None \<rparr>,
      \<lparr> State = Some (py ''Data is current as of today''), Bill_Name = None, Status = None,
        Status_Detail = None, Status_Date = None, Issues = None \<rparr>,
      \<lparr> State = Some (py ''Guam''), Bill_Name = Some (py ''S.B.0009''),
        Status = Some (py ''Defeated''), Status_Detail = Some (py ''Dead''),
        Status_Date = None, Issues = None \<rparr>]"




section \<open>The normalizer on the documented examples\<close>

text \<open>
  Claim C1. The normalizer maps each of the seven documented examples to its canonical
  form: S.350 to S350, H.B.158 to HB158, S.F.473 to SF473, L.D. 1134 (S.P. 461) to LD1134,
  H.B. 229 to HB229, H.C.R.2042 to HCR2042 and S.B.0009 to SB9.
\<close>

theorem normalize_examples:
  "normalize_bill_number (Some (py ''S.350'')) = Inr (Some (py ''S350''))
   \<and> normalize_bill_number (Some (py ''H.B.158'')) = Inr (Some (py ''HB158''))
   \<and> normalize_bill_number (Some (py ''S.F.473'')) = Inr (Some (py ''SF473''))
   \<and> normalize_bill_number (Some (py ''L.D. 1134 (S.P. 461)'')) = Inr (Some (py ''LD1134''))
   \<and> normalize_bill_number (Some (py ''H.B. 229'')) = Inr (Some (py ''HB229''))
   \<and> normalize_bill_number (Some (py ''H.C.R.2042'')) = Inr (Some (py ''HCR2042''))
   \<and> normalize_bill_number (Some (py ''S.B.0009'')) = Inr (Some (py ''SB9''))"
  by code_simp

section \<open>Missing and empty bill names\<close>

text \<open>
  Claim C3, as stated: an empty or missing bill name yields the no-value marker; the
  empty string in particular. The empty string is not a missing value: the normalizer
  tests for a missing value only, and a string goes through the substitutions. The empty
  string comes back as the empty string.
\<close>

theorem normalize_empty_string_not_missing:
  "normalize_bill_number (Some (py '''')) \<noteq> Inr None"
  by code_simp

text \<open>
  Claim C3, amended: the normalizer returns the no-value marker exactly when its input
  is missing; the empty string, which is a string and not a missing value, is returned as the
  empty string.
\<close>

theorem normalize_missing:
  "(normalize_bill_number x = Inr None) = (x = None)
   \<and> normalize_bill_number (Some (py '''')) = Inr (Some (py ''''))"
proof
  show "(normalize_bill_number x = Inr None) = (x = None)"
    by (cases x)
      (simp_all add: normalize_bill_number_def Let_def split: option.splits sum.splits)
  show "normalize_bill_number (Some (py '''')) = Inr (Some (py ''''))"
    by code_simp
qed

section \<open>The year extractor\<close>

lemma search_four_digits_None:
  "search_four_digits s = None \<longleftrightarrow> (\<forall>i. \<not> four_digits_at s i)"
proof (induction s)
  case Nil
  then show ?case by (simp add: four_digits_at_def)
next
  case (Cons c cs)
  have shift: "four_digits_at (c # cs) (Suc i) = four_digits_at cs i" for i
    by (simp add: four_digits_at_def add.commute)
  show ?case
  proof (cases "four_digits_at (c # cs) 0")
    case True
    then have "search_four_digits (c # cs) \<noteq> None" by (auto simp: four_digits_at_def)
    with True show ?thesis by blast
  next
    case False
    then have "search_four_digits (c # cs) = search_four_digits cs"
      by (auto simp: four_digits_at_def)
    moreover have "(\<forall>i. \<not> four_digits_at (c # cs) i) \<longleftrightarrow> (\<forall>i. \<not> four_digits_at cs i)"
      using False shift by (metis not0_implies_Suc)
    ultimately show ?thesis using Cons.IH by simp
  qed
qed

lemma search_four_digits_first:
  "four_digits_at s i \<Longrightarrow> (\<forall>j<i. \<not> four_digits_at s j) \<Longrightarrow>
   search_four_digits s = Some (take 4 (drop i s))"
proof (induction s arbitrary: i)
  case Nil
  then show ?case by (simp add: four_digits_at_def)
next
  case (Cons c cs)
  have shift: "four_digits_at (c # cs) (Suc k) = four_digits_at cs k" for k
    by (simp add: four_digits_at_def add.commute)
  show ?case
  proof (cases i)
    case 0
    with Cons.prems(1) show ?thesis by (auto simp: four_digits_at_def)
  next
    case (Suc k)
    with Cons.prems have no0: "\<not> four_digits_at (c # cs) 0" by blast
    have "four_digits_at cs k" using Cons.prems(1) Suc shift by simp
    moreover have "\<forall>j<k. \<not> four_digits_at cs j"
      using Cons.prems(2) Suc shift by (metis Suc_less_eq)
    ultimately have "search_four_digits cs = Some (take 4 (drop k cs))"
      by (rule Cons.IH)
    moreover have "search_four_digits (c # cs) = search_four_digits cs"
      using no0 by (auto simp: four_digits_at_def)
    ultimately show ?thesis using Suc by simp
  qed
qed

text \<open>
  Claim C4, as stated: the extractor returns a run of exactly four digits when the string
  has one, and the fallback year when it has none. The search takes the first four digits
  standing in a row, also as the head of a longer run: the only digit run of 12345 has
  five digits, and the extractor returns 1234, not the fallback 2025.
\<close>

theorem extract_year_longer_run:
  "digit_runs (py ''12345'') = [py ''12345''] \<and> extract_year (Some (py ''12345'')) = 1234"
  by code_simp

text \<open>
  Claim C4, amended: a missing input gives the fallback year 2025; a string in which four
  digits stand in a row somewhere gives the number written by the four digits at the
  leftmost such position, whether or not more digits follow them; a string in which
  no four digits stand in a row gives the fallback 2025.
\<close>

theorem extract_year_first_four_digits:
  "extract_year None = 2025
   \<and> (four_digits_at s i \<and> (\<forall>j<i. \<not> four_digits_at s j)
        \<longrightarrow> extract_year (Some s) = int (int_of_digits (take 4 (drop i s))))
   \<and> ((\<forall>i. \<not> four_digits_at s i) \<longrightarrow> extract_year (Some s) = 2025)"
  using search_four_digits_first [of s i] search_four_digits_None [of s]
  by (auto simp: extract_year_def)

theorem extract_year_first_four_digits_witness:
  "four_digits_at (py ''01/19/2025'') 6
   \<and> list_all (\<lambda>j. \<not> four_digits_at (py ''01/19/2025'') j) [0..<6]
   \<and> extract_year (Some (py ''01/19/2025'')) = 2025
   \<and> search_four_digits (py ''no date'') = None
   \<and> extract_year (Some (py ''no date'')) = 2025"
proof -
  have a: "four_digits_at (py ''01/19/2025'') 6" by code_simp
  have b: "list_all (\<lambda>j. \<not> four_digits_at (py ''01/19/2025'') j) [0..<6]" by code_simp
  then have b': "\<forall>j<6. \<not> four_digits_at (py ''01/19/2025'') j"
    by (simp add: list_all_iff)
  have c: "int (int_of_digits (take 4 (drop 6 (py ''01/19/2025'')))) = 2025" by code_simp
  have d: "search_four_digits (py ''no date'') = None" by code_simp
  have d': "\<forall>i. \<not> four_digits_at (py ''no date'') i"
    using d unfolding search_four_digits_None .
  show ?thesis
    using extract_year_first_four_digits [of "py ''01/19/2025''" 6]
      extract_year_first_four_digits [of "py ''no date''"] a b b' c d d'
    by simp
qed

section \<open>State abbreviations\<close>





section \<open>The issue categorizer\<close>












section \<open>Characters and decimal strings\<close>



















section \<open>The general case of the normalizer\<close>










section \<open>Idempotence of the normalizer\<close>

text \<open>
  Claim C2: normalizing the normalizer's output gives that output again. The code breaks
  this on a parenthetical with a line feed inside. The substitution that is to remove
  parentheticals misses it, since the pattern's dot does not match a line feed; the first
  pass then removes the line feed as white space and returns the parentheses, which the
  second pass removes. An opening parenthesis, a line feed and a closing parenthesis
  give the pair of parentheses, and normalizing that gives the empty string.
\<close>

theorem normalize_not_idempotent:
  "normalize_bill_number (Some [of_char CHR ''('', of_char CHR 0x0A, of_char CHR '')''])
     = Inr (Some (py ''()''))
   \<and> normalize_twice (Some [of_char CHR ''('', of_char CHR 0x0A, of_char CHR '')''])
     = Inr (Some (py ''''))"
  by code_simp

section \<open>Totality of the normalizer\<close>








lemma normalize_error_iff:
  "normalize_bill_number (Some s) = Inl e \<longleftrightarrow> e = ValueError \<and> long_maine_number s"
  by (auto simp: normalize_bill_number_def long_maine_number_def py_int_def Let_def
      split: option.splits if_splits)

lemma normalize_returns:
  "\<not> long_maine_number s \<Longrightarrow> \<exists>r. normalize_bill_number (Some s) = Inr (Some r)"
  by (auto simp: normalize_bill_number_def long_maine_number_def py_int_def Let_def
      split: option.splits if_splits)







section \<open>The pipeline\<close>

lemma normalize_row:
  "normalize_bill_number (Bill_Name row) =
     (if long_maine_row row then Inl ValueError
      else Inr (case normalize_bill_number (Bill_Name row) of Inr y \<Rightarrow> y))"
proof (cases "Bill_Name row")
  case None
  then show ?thesis by (simp add: long_maine_row_def normalize_bill_number_def)
next
  case (Some s)
  show ?thesis
  proof (cases "long_maine_number s")
    case True
    then show ?thesis using Some by (simp add: long_maine_row_def normalize_error_iff)
  next
    case False
    then obtain r where "normalize_bill_number (Some s) = Inr (Some r)"
      using normalize_returns by blast
    then show ?thesis using Some False by (simp add: long_maine_row_def)
  qed
qed

lemma keep_row_build_record:
  assumes "keep_row row"
  shows "build_record row = (if long_maine_row row then Inl ValueError else Inr (record_of row))"
proof -
  from assms obtain st where st: "State row = Some st"
    by (auto simp: keep_row_def split: option.splits)
  show ?thesis
  proof (cases "long_maine_row row")
    case True
    then have "normalize_bill_number (Bill_Name row) = Inl ValueError"
      using normalize_row [of row] by simp
    then show ?thesis using True by (simp add: build_record_def)
  next
    case False
    then obtain y where "normalize_bill_number (Bill_Name row) = Inr y"
      using normalize_row [of row] by simp
    then have "\<exists>r. build_record row = Inr r"
      using st by (simp add: build_record_def state_abbrev_of_def Let_def)
    then show ?thesis using False by (auto simp: record_of_def)
  qed
qed

lemma build_records_kept:
  "\<forall>row \<in> set rows. keep_row row \<Longrightarrow>
   build_records rows records =
     (if \<exists>row \<in> set rows. long_maine_row row then Inl ValueError
      else Inr (records @ map record_of rows))"
  by (induction rows arbitrary: records) (simp_all add: keep_row_build_record)

lemma build_classification_dict_eq:
  "build_classification_dict df =
     (if no_string_state df then Inl AttributeError
      else if \<exists>row \<in> set (filter keep_row df). long_maine_row row then Inl ValueError
      else Inr (map record_of (filter keep_row df)))"
proof -
  have "\<forall>row \<in> set (filter keep_row df). keep_row row" by simp
  then have "build_records (filter keep_row df) [] =
     (if \<exists>row \<in> set (filter keep_row df). long_maine_row row then Inl ValueError
      else Inr ([] @ map record_of (filter keep_row df)))"
    by (rule build_records_kept)
  then show ?thesis unfolding build_classification_dict_def by (simp only: append_Nil)
qed

lemma record_of_fields:
  assumes "keep_row row" and "\<not> long_maine_row row"
  shows "state_full (record_of row) = State row \<and> bill_number_raw (record_of row) = Bill_Name row
   \<and> status (record_of row) = Status row \<and> status_detail (record_of row) = Status_Detail row
   \<and> issues_raw (record_of row) = Issues row
   \<and> label (record_of row) = py ''harmful'' \<and> source (record_of row) = py ''aclu_tracker''
   \<and> legiscan_bill_id (record_of row) = None \<and> legiscan_text_url (record_of row) = None"
proof -
  from assms have "build_record row = Inr (record_of row)"
    by (simp add: keep_row_build_record)
  then have "Inr (record_of row) = build_record row" by simp
  then show ?thesis
    unfolding build_record_def Let_def
    by (auto split: sum.splits)
qed




lemma example_rows_kept:
  "\<not> no_string_state example_rows
   \<and> filter keep_row example_rows = [example_rows ! 0, example_rows ! 3]
   \<and> list_all (\<lambda>row. \<not> long_maine_row row) (filter keep_row example_rows)"
  by code_simp


text \<open>
  Claim C7. Every record of the output has the label harmful and the source tag
  aclu_tracker, and its two LegiScan fields, the bill identifier and the text URL, are empty.
\<close>

theorem records_constant_fields:
  assumes "build_classification_dict df = Inr out"
  shows "\<forall>r \<in> set out. label r = py ''harmful'' \<and> source r = py ''aclu_tracker''
           \<and> legiscan_bill_id r = None \<and> legiscan_text_url r = None"
proof -
  from assms have out: "out = map record_of (filter keep_row df)"
    and ok: "\<forall>row \<in> set (filter keep_row df). \<not> long_maine_row row"
    unfolding build_classification_dict_eq by (auto split: if_splits)
  show ?thesis
  proof
    fix r assume "r \<in> set out"
    then obtain row where "row \<in> set (filter keep_row df)" and r: "r = record_of row"
      unfolding out by auto
    then have "keep_row row" and "\<not> long_maine_row row" using ok by simp_all
    then show "label r = py ''harmful'' \<and> source r = py ''aclu_tracker''
           \<and> legiscan_bill_id r = None \<and> legiscan_text_url r = None"
      unfolding r using record_of_fields [of row] by simp
  qed
qed

theorem records_constant_fields_witness:
  "\<exists>out. build_classification_dict example_rows = Inr out
     \<and> length out = 2
     \<and> list_all (\<lambda>r. label r = py ''harmful'' \<and> source r = py ''aclu_tracker''
                    \<and> legiscan_bill_id r = None \<and> legiscan_text_url r = None) out"
proof -
  have d: "\<not> no_string_state example_rows"
    and kept: "filter keep_row example_rows = [example_rows ! 0, example_rows ! 3]"
    and e: "list_all (\<lambda>row. \<not> long_maine_row row) (filter keep_row example_rows)"
    using example_rows_kept by blast+
  from e have "\<not> (\<exists>row \<in> set (filter keep_row example_rows). long_maine_row row)"
    by (simp only: list_all_iff) blast
  with d have out: "build_classification_dict example_rows
                    = Inr (map record_of (filter keep_row example_rows))"
    by (simp only: build_classification_dict_eq if_False)
  have "length (map record_of (filter keep_row example_rows)) = 2" unfolding kept by simp
  then show ?thesis
    using records_constant_fields [OF out] out by (simp add: list_all_iff)
qed

end
